theory Spec2Isabelle
  imports Complex_Main "HOL-Library.Multiset"
begin

section \<open>The robot self mask (robot\_self\_filter, self\_mask.cpp)\<close>

text \<open>
  A shallow embedding of \<^verbatim>\<open>robot_self_filter::SelfMask\<close>. The C++ scalars
  (\<^verbatim>\<open>double\<close>, \<^verbatim>\<open>tfScalar\<close>) are read as real numbers. The geometry library
  (\<^verbatim>\<open>bodies::Body\<close>, \<^verbatim>\<open>shapes::Shape\<close>), the transform listener, the URDF parser
  and the parameter server are outside this repository: their operations are the
  fields of the record \<open>Env\<close>, which every function takes as its first argument.
\<close>

subsection \<open>Vectors, transforms, bodies\<close>

datatype Vector3 = Vector3 (vx: real) (vy: real) (vz: real)

fun vsub :: "Vector3 \<Rightarrow> Vector3 \<Rightarrow> Vector3" where
  "vsub (Vector3 a b c) (Vector3 x y z) = Vector3 (a - x) (b - y) (c - z)"

fun vdot :: "Vector3 \<Rightarrow> Vector3 \<Rightarrow> real" where
  "vdot (Vector3 a b c) (Vector3 x y z) = a * x + b * y + c * z"

definition squaredNorm :: "Vector3 \<Rightarrow> real" where
  "squaredNorm v = vdot v v"

definition vlength :: "Vector3 \<Rightarrow> real" where
  "vlength v = sqrt (vdot v v)"

text \<open>\<^verbatim>\<open>dir /= lng\<close>: componentwise division (HOL's \<open>x / 0 = 0\<close> stands for the
  IEEE result when \<open>lng\<close> is zero).\<close>

fun vdiv :: "Vector3 \<Rightarrow> real \<Rightarrow> Vector3" where
  "vdiv (Vector3 a b c) s = Vector3 (a / s) (b / s) (c / s)"

datatype Quaternion = Quaternion real real real real

record Transform =
  rotation :: Quaternion
  origin :: Vector3

text \<open>\<^verbatim>\<open>transf.setIdentity()\<close>.\<close>

definition identityTransform :: Transform where
  "identityTransform = \<lparr>rotation = Quaternion 0 0 0 1, origin = Vector3 0 0 0\<rparr>"

text \<open>\<^verbatim>\<open>shapes::Shape\<close>: what \<^verbatim>\<open>constructShape\<close> builds. A mesh is kept as the
  resource it was loaded from and its scale.\<close>

datatype Shape =
    Sphere real
  | Box real real real
  | Cylinder real real
  | Mesh string Vector3

text \<open>\<^verbatim>\<open>bodies::Body\<close>: a shape with the scale, padding and pose that
  \<^verbatim>\<open>setScale\<close>, \<^verbatim>\<open>setPadding\<close> and \<^verbatim>\<open>setPose\<close> store in it.\<close>

record Body =
  shape :: Shape
  scale :: real
  padding :: real
  pose :: Transform

record BoundingSphere =
  center :: Vector3
  radius :: real

text \<open>\<^verbatim>\<open>struct SeeLink\<close>.\<close>

record SeeLink =
  name :: string
  body :: Body
  unscaledBody :: Body
  constTransf :: Transform
  volume :: real

text \<open>\<^verbatim>\<open>struct LinkInfo\<close>: one entry of \<^verbatim>\<open>configure\<close>'s argument.\<close>

record LinkInfo =
  link_name :: string
  link_padding :: real
  link_scale :: real

datatype Label = INSIDE | OUTSIDE | SHADOW

subsection \<open>The URDF model\<close>

datatype Geometry =
    GSphere real
  | GBox Vector3
  | GCylinder real real
  | GMesh string Vector3
  | GOther int

record Pose =
  position :: Vector3
  rot :: Quaternion

record Collision =
  geometry :: "Geometry option"
  col_origin :: Pose

record Link =
  collision :: "Collision option"

type_synonym UrdfModel = "string \<Rightarrow> Link option"

type_synonym Time = nat

subsection \<open>External collaborators\<close>

text \<open>
  \<^item> \<open>robot_description\<close>: \<^verbatim>\<open>nh_.getParam("robot_description", content)\<close>, \<open>None\<close>
    when the parameter is not set; \<open>initString\<close>: the URDF parser, \<open>None\<close> when it
    returns false.
  \<^item> \<open>createMeshFromResource\<close>, \<open>createBodyFromShape\<close>: \<open>None\<close> is the null pointer.
  \<^item> \<open>intersectsRay b origin dir ints count\<close>: the body's ray test, given the current
    contents \<open>ints\<close> of the caller's vector; it returns the C++ result and the contents
    of the vector afterwards.
  \<^item> \<open>waitForTransform\<close> and \<open>lookupTransform\<close> of the transform listener, with
    target frame, source frame and time; \<open>None\<close> is a \<^verbatim>\<open>tf::TransformException\<close>.
  \<^item> \<open>tf_mul\<close>: \<^verbatim>\<open>tf::Transform::operator*\<close>.
  \<^item> \<open>std_sort\<close>: \<^verbatim>\<open>std::sort\<close> with a comparator.
  \<^item> \<open>defaultSphere\<close>: the value \<^verbatim>\<open>std::vector::resize\<close> fills new
    \<^verbatim>\<open>BoundingSphere\<close> slots with.
\<close>

record Env =
  robot_description :: "string option"
  initString :: "string \<Rightarrow> UrdfModel option"
  createMeshFromResource :: "string \<Rightarrow> Vector3 \<Rightarrow> Shape option"
  createBodyFromShape :: "Shape \<Rightarrow> Body option"
  computeVolume :: "Body \<Rightarrow> real"
  containsPoint :: "Body \<Rightarrow> Vector3 \<Rightarrow> bool"
  intersectsRay :: "Body \<Rightarrow> Vector3 \<Rightarrow> Vector3 \<Rightarrow> Vector3 list \<Rightarrow> nat \<Rightarrow> bool \<times> Vector3 list"
  computeBoundingSphere :: "Body \<Rightarrow> BoundingSphere"
  mergeBoundingSpheres :: "BoundingSphere list \<Rightarrow> BoundingSphere"
  waitForTransform :: "string \<Rightarrow> string \<Rightarrow> Time \<Rightarrow> bool"
  lookupTransform :: "string \<Rightarrow> string \<Rightarrow> Time \<Rightarrow> Transform option"
  tf_mul :: "Transform \<Rightarrow> Transform \<Rightarrow> Transform"
  std_sort :: "(SeeLink \<Rightarrow> SeeLink \<Rightarrow> bool) \<Rightarrow> SeeLink list \<Rightarrow> SeeLink list"
  defaultSphere :: BoundingSphere

subsection \<open>The state of a SelfMask\<close>

text \<open>The members \<^verbatim>\<open>bodies_\<close>, \<^verbatim>\<open>bspheres_\<close>, \<^verbatim>\<open>bspheresRadius2_\<close>, \<^verbatim>\<open>sensor_pos_\<close> and
  \<^verbatim>\<open>min_sensor_dist_\<close>, written without the trailing underscore.\<close>

record SelfMask =
  bodies :: "SeeLink list"
  bspheres :: "BoundingSphere list"
  bspheresRadius2 :: "real list"
  sensor_pos :: Vector3
  min_sensor_dist :: real

record PointCloud =
  frame_id :: string
  stamp :: Time
  points :: "Vector3 list"

subsection \<open>Point classification\<close>

text \<open>The loop \<^verbatim>\<open>for (j = 0; out == OUTSIDE && j < bs; ++j) if (b[j]->containsPoint(pt)) out = INSIDE;\<close>
  over the bodies selected by \<open>sel\<close> (\<open>body\<close> or \<open>unscaledBody\<close>), from the current
  value of \<open>out\<close>.\<close>

fun containsLoop :: "Env \<Rightarrow> (SeeLink \<Rightarrow> Body) \<Rightarrow> Vector3 \<Rightarrow> SeeLink list \<Rightarrow> Label \<Rightarrow> Label" where
  "containsLoop env sel pt [] out = out"
| "containsLoop env sel pt (sl # rest) out =
     (if out = OUTSIDE
      then containsLoop env sel pt rest (if containsPoint env (sel sl) pt then INSIDE else out)
      else out)"


text \<open>One iteration of the point loop of \<^verbatim>\<open>SelfMask::maskAuxContainment\<close>, for the
  merged sphere \<open>bound\<close>.\<close>

definition containmentPoint :: "Env \<Rightarrow> SelfMask \<Rightarrow> BoundingSphere \<Rightarrow> Vector3 \<Rightarrow> Label" where
  "containmentPoint env st bound pt =
     (let radiusSquared = radius bound * radius bound;
          diff = vsub pt (center bound)
      in if squaredNorm diff < radiusSquared
         then containsLoop env body pt (bodies st) OUTSIDE
         else OUTSIDE)"

text \<open>\<^verbatim>\<open>SelfMask::maskAuxContainment\<close>: the mask, one label per point.\<close>

definition maskAuxContainment :: "Env \<Rightarrow> SelfMask \<Rightarrow> Vector3 list \<Rightarrow> Label list" where
  "maskAuxContainment env st pts =
     (let bound = mergeBoundingSpheres env (bspheres st)
      in map (containmentPoint env st bound) pts)"

text \<open>
  The ray loop of the shadow test,
  \<^verbatim>\<open>for (j = 0; out == OUTSIDE && j < bs; ++j) if (body[j]->intersectsRay(pt, dir_eigen, &intersections, 1)) ...\<close>.
  Its state is \<open>out\<close>, the vector \<open>intersections\<close> (declared before the loop and
  handed to every body) and the points given to the callback so far; \<open>cb\<close> says
  whether a callback was supplied. \<open>None\<close>: \<^verbatim>\<open>intersections[0]\<close> was read from an
  empty vector.
\<close>

fun rayLoop :: "Env \<Rightarrow> bool \<Rightarrow> Vector3 \<Rightarrow> Vector3 \<Rightarrow> Vector3 \<Rightarrow> Vector3 \<Rightarrow> SeeLink list
    \<Rightarrow> Label \<Rightarrow> Vector3 list \<Rightarrow> Vector3 list \<Rightarrow> (Label \<times> Vector3 list) option" where
  "rayLoop env cb sensor dir pt dir_eigen [] out ints calls = Some (out, calls)"
| "rayLoop env cb sensor dir pt dir_eigen (sl # rest) out ints calls =
     (if out = OUTSIDE
      then (case intersectsRay env (body sl) pt dir_eigen ints 1 of
              (True, ints') \<Rightarrow>
                (case ints' of
                   [] \<Rightarrow> None
                 | tmp_tf_vec # _ \<Rightarrow>
                     if vdot dir (vsub sensor tmp_tf_vec) \<ge> 0
                     then rayLoop env cb sensor dir pt dir_eigen rest SHADOW ints'
                            (if cb then calls @ [tmp_tf_vec] else calls)
                     else rayLoop env cb sensor dir pt dir_eigen rest out ints' calls)
            | (False, ints') \<Rightarrow> rayLoop env cb sensor dir pt dir_eigen rest out ints' calls)
      else Some (out, calls))"

text \<open>\<^verbatim>\<open>SelfMask::getMaskIntersection\<close>: the label and the points the callback was
  called with, in order.\<close>

definition getMaskIntersection :: "Env \<Rightarrow> SelfMask \<Rightarrow> Vector3 \<Rightarrow> bool \<Rightarrow> (Label \<times> Vector3 list) option" where
  "getMaskIntersection env st pt cb =
     (let out = containsLoop env unscaledBody pt (bodies st) OUTSIDE
      in if out = OUTSIDE
         then (let dir = vsub (sensor_pos st) pt;
                   dir_eigen = dir;
                   lng = vlength dir
               in if lng < min_sensor_dist st
                  then Some (INSIDE, [])
                  else (case rayLoop env cb (sensor_pos st) (vdiv dir lng) pt dir_eigen
                               (bodies st) out [] [] of
                          None \<Rightarrow> None
                        | Some (out', calls) \<Rightarrow>
                            Some (containsLoop env body pt (bodies st) out', calls)))
         else Some (out, []))"

text \<open>One iteration of the point loop of \<^verbatim>\<open>SelfMask::maskAuxIntersection\<close>.\<close>

definition intersectionPoint :: "Env \<Rightarrow> SelfMask \<Rightarrow> BoundingSphere \<Rightarrow> bool \<Rightarrow> Vector3
    \<Rightarrow> (Label \<times> Vector3 list) option" where
  "intersectionPoint env st bound cb pt =
     (let radiusSquared = radius bound * radius bound;
          diff = vsub (center bound) pt;
          out = (if squaredNorm diff < radiusSquared
                 then containsLoop env unscaledBody pt (bodies st) OUTSIDE
                 else OUTSIDE)
      in if out = OUTSIDE
         then (let dir = vsub (sensor_pos st) pt;
                   dir_eigen = vsub (sensor_pos st) pt;
                   lng = vlength dir
               in if lng < min_sensor_dist st
                  then Some (INSIDE, [])
                  else (case rayLoop env cb (sensor_pos st) (vdiv dir lng) pt dir_eigen
                               (bodies st) out [] [] of
                          None \<Rightarrow> None
                        | Some (out', calls) \<Rightarrow>
                            Some (if out' = OUTSIDE \<and> squaredNorm diff < radiusSquared
                                  then containsLoop env body pt (bodies st) out'
                                  else out', calls)))
         else Some (out, []))"

text \<open>The point loop of \<^verbatim>\<open>SelfMask::maskAuxIntersection\<close>: the mask so far and the
  callback's points so far.\<close>

fun intersectionPoints :: "Env \<Rightarrow> SelfMask \<Rightarrow> BoundingSphere \<Rightarrow> bool \<Rightarrow> Vector3 list
    \<Rightarrow> (Label list \<times> Vector3 list) option" where
  "intersectionPoints env st bound cb [] = Some ([], [])"
| "intersectionPoints env st bound cb (pt # pts) =
     (case intersectionPoint env st bound cb pt of
        None \<Rightarrow> None
      | Some (out, calls) \<Rightarrow>
          (case intersectionPoints env st bound cb pts of
             None \<Rightarrow> None
           | Some (labels, calls') \<Rightarrow> Some (out # labels, calls @ calls')))"

definition maskAuxIntersection :: "Env \<Rightarrow> SelfMask \<Rightarrow> Vector3 list \<Rightarrow> bool
    \<Rightarrow> (Label list \<times> Vector3 list) option" where
  "maskAuxIntersection env st pts cb =
     intersectionPoints env st (mergeBoundingSpheres env (bspheres st)) cb pts"

subsection \<open>Diagnostics\<close>

text \<open>The \<^verbatim>\<open>ROS_ERROR\<close> and \<^verbatim>\<open>ROS_WARN\<close> messages, with their arguments
  (\<^verbatim>\<open>ROS_DEBUG\<close> output is left out).\<close>

datatype LogMsg =
    ErrorUnableToParseURDF
  | ErrorRobotModelNotFound
  | WarnEmptyMeshFilename
  | ErrorUnknownGeometryType int
  | WarnNoCollisionGeometry string
  | ErrorUnableToConstructShape string
  | WarnUnableToCreateBody string
  | WarnLinksNotInModel string
  | WarnNoLinksChecked
  | ErrorWaitForTransform string string
  | ErrorLookupTransform string string

subsection \<open>configure\<close>

definition urdfPose2TFTransform :: "Pose \<Rightarrow> Transform" where
  "urdfPose2TFTransform p = \<lparr>rotation = rot p, origin = position p\<rparr>"

fun constructShape :: "Env \<Rightarrow> Geometry \<Rightarrow> Shape option \<times> LogMsg list" where
  "constructShape env (GSphere r) = (Some (Sphere r), [])"
| "constructShape env (GBox d) = (Some (Box (vx d) (vy d) (vz d)), [])"
| "constructShape env (GCylinder r l) = (Some (Cylinder r l), [])"
| "constructShape env (GMesh filename sc) =
     (if filename \<noteq> [] then (createMeshFromResource env filename sc, [])
      else (None, [WarnEmptyMeshFilename]))"
| "constructShape env (GOther t) = (None, [ErrorUnknownGeometryType t])"

text \<open>Modelled from the spec: the comparator \<^verbatim>\<open>SortBodies\<close> is declared in
  self\_mask.h, which is not among the sources; the spec sorts by descending volume and
  the call site says "put larger volume bodies first".\<close>

definition SortBodies :: "SeeLink \<Rightarrow> SeeLink \<Rightarrow> bool" where
  "SortBodies b1 b2 = (volume b1 > volume b2)"

text \<open>One iteration of the link loop of \<^verbatim>\<open>SelfMask::configure\<close>: the bodies pushed
  onto \<^verbatim>\<open>bodies_\<close> (none or one), the text written to the stream \<^verbatim>\<open>missing\<close>, and
  the messages logged. The second \<^verbatim>\<open>createBodyFromShape(shape)\<close>, for the unscaled
  body, is the same call on the same shape as the first.\<close>

definition configureLink :: "Env \<Rightarrow> UrdfModel \<Rightarrow> LinkInfo \<Rightarrow> SeeLink list \<times> string \<times> LogMsg list" where
  "configureLink env urdfModel li =
     (case urdfModel (link_name li) of
        None \<Rightarrow> ([], '' '' @ link_name li, [])
      | Some link \<Rightarrow>
          (case collision link of
             None \<Rightarrow> ([], [], [WarnNoCollisionGeometry (link_name li)])
           | Some col \<Rightarrow>
               (case geometry col of
                  None \<Rightarrow> ([], [], [WarnNoCollisionGeometry (link_name li)])
                | Some geom \<Rightarrow>
                    (case constructShape env geom of
                       (None, l) \<Rightarrow> ([], [], l @ [ErrorUnableToConstructShape (link_name li)])
                     | (Some shp, l) \<Rightarrow>
                         (case createBodyFromShape env shp of
                            None \<Rightarrow> ([], [], l @ [WarnUnableToCreateBody (link_name li)])
                          | Some b \<Rightarrow>
                              (let sb = b\<lparr>scale := link_scale li, padding := link_padding li\<rparr>
                               in ([\<lparr>name = link_name li, body = sb, unscaledBody = b,
                                     constTransf = urdfPose2TFTransform (col_origin col),
                                     volume = computeVolume env sb\<rparr>], [], l)))))))"

fun configureLinks :: "Env \<Rightarrow> UrdfModel \<Rightarrow> LinkInfo list \<Rightarrow> SeeLink list \<Rightarrow> string \<Rightarrow> LogMsg list
    \<Rightarrow> SeeLink list \<times> string \<times> LogMsg list" where
  "configureLinks env urdfModel [] bs missing msgs = (bs, missing, msgs)"
| "configureLinks env urdfModel (li # rest) bs missing msgs =
     (case configureLink env urdfModel li of
        (new, mis, l) \<Rightarrow> configureLinks env urdfModel rest (bs @ new) (missing @ mis) (msgs @ l))"

text \<open>\<^verbatim>\<open>std::vector::resize(n)\<close> with fill value \<open>d\<close>.\<close>

definition resize :: "nat \<Rightarrow> 'a \<Rightarrow> 'a list \<Rightarrow> 'a list" where
  "resize n d xs = take n xs @ replicate (n - length xs) d"

text \<open>\<^verbatim>\<open>SelfMask::configure\<close>: the result, the new state and the messages logged.
  \<^verbatim>\<open>freeMemory\<close> empties \<^verbatim>\<open>bodies_\<close>.\<close>

definition configure :: "Env \<Rightarrow> SelfMask \<Rightarrow> LinkInfo list \<Rightarrow> bool \<times> SelfMask \<times> LogMsg list" where
  "configure env st links =
     (let st0 = st\<lparr>bodies := [], sensor_pos := Vector3 0 0 0\<rparr>
      in case robot_description env of
           None \<Rightarrow> (False, st0, [ErrorRobotModelNotFound])
         | Some content \<Rightarrow>
             (case initString env content of
                None \<Rightarrow> (False, st0, [ErrorUnableToParseURDF])
              | Some urdfModel \<Rightarrow>
                  (case configureLinks env urdfModel links [] [] [] of
                     (bs, missing, msgs) \<Rightarrow>
                       (let msgs1 = msgs @ (if length missing > 0 then [WarnLinksNotInModel missing] else []);
                            msgs2 = msgs1 @ (if bs = [] then [WarnNoLinksChecked] else []);
                            sorted = std_sort env SortBodies bs
                        in (True,
                            st0\<lparr>bodies := sorted,
                                bspheres := resize (length sorted) (defaultSphere env) (bspheres st0),
                                bspheresRadius2 := resize (length sorted) 0 (bspheresRadius2 st0)\<rparr>,
                            msgs2)))))"

text \<open>\<^verbatim>\<open>SelfMask::getLinkNames\<close> appends the names to \<open>frames\<close>.\<close>

definition getLinkNames :: "SelfMask \<Rightarrow> string list \<Rightarrow> string list" where
  "getLinkNames st frames = frames @ map name (bodies st)"

subsection \<open>assumeFrame\<close>

text \<open>\<^verbatim>\<open>SelfMask::computeBoundingSpheres\<close>: slot \<open>i\<close> of both vectors is written for
  every body index \<open>i\<close>.\<close>

definition boundingSphereStep :: "Env \<Rightarrow> nat \<Rightarrow> SelfMask \<Rightarrow> SelfMask" where
  "boundingSphereStep env i st =
     (let s = computeBoundingSphere env (body (bodies st ! i))
      in st\<lparr>bspheres := (bspheres st)[i := s],
            bspheresRadius2 := (bspheresRadius2 st)[i := radius s * radius s]\<rparr>)"

definition computeBoundingSpheres :: "Env \<Rightarrow> SelfMask \<Rightarrow> SelfMask" where
  "computeBoundingSpheres env st = fold (boundingSphereStep env) [0..<length (bodies st)] st"

text \<open>One iteration of the body loop of \<^verbatim>\<open>SelfMask::assumeFrame(frame_id, stamp)\<close>:
  the link with both poses set, and the messages logged.\<close>

definition placeLink :: "Env \<Rightarrow> string \<Rightarrow> Time \<Rightarrow> SeeLink \<Rightarrow> SeeLink \<times> LogMsg list" where
  "placeLink env frame tm sl =
     (let msgs1 = (if \<not> waitForTransform env frame (name sl) tm
                  then [ErrorWaitForTransform (name sl) frame] else []);
          (transf, msgs2) = (case lookupTransform env frame (name sl) tm of
                              Some t \<Rightarrow> (t, msgs1)
                            | None \<Rightarrow> (identityTransform, msgs1 @ [ErrorLookupTransform (name sl) frame]));
          converted_tf = tf_mul env transf (constTransf sl)
      in (sl\<lparr>body := (body sl)\<lparr>pose := converted_tf\<rparr>,
             unscaledBody := (unscaledBody sl)\<lparr>pose := converted_tf\<rparr>\<rparr>, msgs2))"

fun placeLinks :: "Env \<Rightarrow> string \<Rightarrow> Time \<Rightarrow> SeeLink list \<Rightarrow> SeeLink list \<times> LogMsg list" where
  "placeLinks env frame tm [] = ([], [])"
| "placeLinks env frame tm (sl # rest) =
     (case placeLink env frame tm sl of
        (sl', l) \<Rightarrow> (case placeLinks env frame tm rest of (rest', l') \<Rightarrow> (sl' # rest', l @ l')))"

definition assumeFrame :: "Env \<Rightarrow> SelfMask \<Rightarrow> string \<Rightarrow> Time \<Rightarrow> SelfMask \<times> LogMsg list" where
  "assumeFrame env st frame tm =
     (case placeLinks env frame tm (bodies st) of
        (bs, msgs) \<Rightarrow> (computeBoundingSpheres env (st\<lparr>bodies := bs\<rparr>), msgs))"

text \<open>\<^verbatim>\<open>assumeFrame(frame_id, stamp, sensor_pos, min_sensor_dist)\<close>.\<close>

definition assumeFrame_pos :: "Env \<Rightarrow> SelfMask \<Rightarrow> string \<Rightarrow> Time \<Rightarrow> Vector3 \<Rightarrow> real
    \<Rightarrow> SelfMask \<times> LogMsg list" where
  "assumeFrame_pos env st frame tm sensor min_dist =
     (case assumeFrame env st frame tm of
        (st', msgs) \<Rightarrow> (st'\<lparr>sensor_pos := sensor, min_sensor_dist := min_dist\<rparr>, msgs))"

text \<open>\<^verbatim>\<open>assumeFrame(frame_id, stamp, sensor_frame, min_sensor_dist)\<close>. The reset of
  \<^verbatim>\<open>sensor_pos_\<close> after a failed wait is overwritten by either branch of the lookup.\<close>

definition assumeFrame_frame :: "Env \<Rightarrow> SelfMask \<Rightarrow> string \<Rightarrow> Time \<Rightarrow> string \<Rightarrow> real
    \<Rightarrow> SelfMask \<times> LogMsg list" where
  "assumeFrame_frame env st frame tm sensor_frame min_dist =
     (case assumeFrame env st frame tm of
        (st1, msgs) \<Rightarrow>
          (let (st2, msgs2) = (if \<not> waitForTransform env frame sensor_frame tm
                              then (st1\<lparr>sensor_pos := Vector3 0 0 0\<rparr>,
                                    msgs @ [ErrorWaitForTransform sensor_frame frame])
                              else (st1, msgs));
               (st3, msgs3) = (case lookupTransform env frame sensor_frame tm of
                                Some transf \<Rightarrow> (st2\<lparr>sensor_pos := origin transf\<rparr>, msgs2)
                              | None \<Rightarrow> (st2\<lparr>sensor_pos := Vector3 0 0 0\<rparr>,
                                         msgs2 @ [ErrorLookupTransform sensor_frame frame]))
           in (st3\<lparr>min_sensor_dist := min_dist\<rparr>, msgs3)))"

subsection \<open>The batch operations\<close>

text \<open>\<^verbatim>\<open>SelfMask::maskContainment\<close>: the mask, the state afterwards, the messages.\<close>

definition maskContainment :: "Env \<Rightarrow> SelfMask \<Rightarrow> PointCloud \<Rightarrow> Label list \<times> SelfMask \<times> LogMsg list" where
  "maskContainment env st data_in =
     (if bodies st = []
      then (replicate (length (points data_in)) OUTSIDE, st, [])
      else (case assumeFrame env st (frame_id data_in) (stamp data_in) of
              (st', msgs) \<Rightarrow> (maskAuxContainment env st' (points data_in), st', msgs)))"

text \<open>\<^verbatim>\<open>SelfMask::maskIntersection\<close> with a sensor frame: the mask and the points given
  to the callback (\<open>None\<close> as in \<open>rayLoop\<close>), the state afterwards, the messages.\<close>

definition maskIntersection_frame :: "Env \<Rightarrow> SelfMask \<Rightarrow> PointCloud \<Rightarrow> string \<Rightarrow> real \<Rightarrow> bool
    \<Rightarrow> (Label list \<times> Vector3 list) option \<times> SelfMask \<times> LogMsg list" where
  "maskIntersection_frame env st data_in sensor_frame min_dist cb =
     (if bodies st = []
      then (Some (replicate (length (points data_in)) OUTSIDE, []), st, [])
      else (case assumeFrame_frame env st (frame_id data_in) (stamp data_in) sensor_frame min_dist of
              (st', msgs) \<Rightarrow>
                (if sensor_frame = []
                 then (Some (maskAuxContainment env st' (points data_in), []), st', msgs)
                 else (maskAuxIntersection env st' (points data_in) cb, st', msgs))))"

text \<open>\<^verbatim>\<open>SelfMask::maskIntersection\<close> with a sensor position.\<close>

definition maskIntersection_pos :: "Env \<Rightarrow> SelfMask \<Rightarrow> PointCloud \<Rightarrow> Vector3 \<Rightarrow> real \<Rightarrow> bool
    \<Rightarrow> (Label list \<times> Vector3 list) option \<times> SelfMask \<times> LogMsg list" where
  "maskIntersection_pos env st data_in sensor min_dist cb =
     (if bodies st = []
      then (Some (replicate (length (points data_in)) OUTSIDE, []), st, [])
      else (case assumeFrame_pos env st (frame_id data_in) (stamp data_in) sensor min_dist of
              (st', msgs) \<Rightarrow> (maskAuxIntersection env st' (points data_in) cb, st', msgs)))"

subsection \<open>Notions used in the properties\<close>

text \<open>The robot model \<^verbatim>\<open>configure\<close> gets to work with, if there is one: the parameter
  is set and the parser accepts it.\<close>

definition usableModel :: "Env \<Rightarrow> UrdfModel option" where
  "usableModel env =
     (case robot_description env of None \<Rightarrow> None | Some content \<Rightarrow> initString env content)"

text \<open>The bodies \<^verbatim>\<open>configure\<close> has pushed onto \<^verbatim>\<open>bodies_\<close> when it reaches
  \<^verbatim>\<open>std::sort\<close>.\<close>

definition builtBodies :: "Env \<Rightarrow> UrdfModel \<Rightarrow> LinkInfo list \<Rightarrow> SeeLink list" where
  "builtBodies env urdfModel links = fst (configureLinks env urdfModel links [] [] [])"

text \<open>What the C++ standard promises of \<^verbatim>\<open>std::sort(first, last, comp)\<close>: the range
  \<open>ys\<close> afterwards is a rearrangement of the range \<open>xs\<close> before, and no element is
  ordered by the comparator \<open>lt\<close> before an element that precedes it. The order of elements that
  the comparator \<open>lt\<close> does not separate is not specified.\<close>

definition sortedBy :: "('a \<Rightarrow> 'a \<Rightarrow> bool) \<Rightarrow> 'a list \<Rightarrow> 'a list \<Rightarrow> bool" where
  "sortedBy lt xs ys = (mset ys = mset xs \<and> sorted_wrt (\<lambda>a b. \<not> lt b a) ys)"

text \<open>A link entry for which no step of the link loop fails: the model knows the
  name, the link has a collision geometry, a shape and a body can be built from it.\<close>

definition linkBuilds :: "Env \<Rightarrow> UrdfModel \<Rightarrow> LinkInfo \<Rightarrow> bool" where
  "linkBuilds env urdfModel li =
     (case urdfModel (link_name li) of
        None \<Rightarrow> False
      | Some link \<Rightarrow>
          (case collision link of
             None \<Rightarrow> False
           | Some col \<Rightarrow>
               (case geometry col of
                  None \<Rightarrow> False
                | Some geom \<Rightarrow>
                    (case fst (constructShape env geom) of
                       None \<Rightarrow> False
                     | Some shp \<Rightarrow> createBodyFromShape env shp \<noteq> None))))"

text \<open>The names among \<open>links\<close> that the model does not know, in order.\<close>

definition unknownNames :: "UrdfModel \<Rightarrow> LinkInfo list \<Rightarrow> string list" where
  "unknownNames urdfModel links =
     map link_name (filter (\<lambda>li. urdfModel (link_name li) = None) links)"

fun isLinksNotInModel :: "LogMsg \<Rightarrow> bool" where
  "isLinksNotInModel (WarnLinksNotInModel _) = True"
| "isLinksNotInModel _ = False"

text \<open>The test that guards the body loops of the batch operations: the point lies
  strictly inside the merged bounding sphere.\<close>

definition insideBound :: "BoundingSphere \<Rightarrow> Vector3 \<Rightarrow> bool" where
  "insideBound bound pt = (squaredNorm (vsub (center bound) pt) < radius bound * radius bound)"

definition mergedSphere :: "Env \<Rightarrow> SelfMask \<Rightarrow> BoundingSphere" where
  "mergedSphere env st = mergeBoundingSpheres env (bspheres st)"

text \<open>A link with the pose \<open>p\<close> set in its scaled and in its unscaled body.\<close>

definition withPose :: "SeeLink \<Rightarrow> Transform \<Rightarrow> SeeLink" where
  "withPose sl p = sl\<lparr>body := (body sl)\<lparr>pose := p\<rparr>, unscaledBody := (unscaledBody sl)\<lparr>pose := p\<rparr>\<rparr>"

subsection \<open>An instance of the collaborators\<close>

text \<open>
  For the examples: a geometry library of spheres and axis-aligned boxes (it builds
  no body for a cylinder or a mesh, and a body's rotation is not looked at), with the
  usual conventions of \<^verbatim>\<open>geometric_shapes\<close>: a sphere contains the points strictly
  inside it, a box contains its faces, the bounding sphere of a box passes through its
  corners, and \<^verbatim>\<open>intersectsRay\<close> appends the hit point to the caller's vector.
\<close>

fun vray :: "Vector3 \<Rightarrow> Vector3 \<Rightarrow> real \<Rightarrow> Vector3" where
  "vray (Vector3 a b c) (Vector3 x y z) t = Vector3 (a + t * x) (b + t * y) (c + t * z)"

definition sphereRadius :: "Body \<Rightarrow> real" where
  "sphereRadius b = (case shape b of Sphere r \<Rightarrow> r * scale b + padding b | _ \<Rightarrow> 0)"

definition halfDims :: "Body \<Rightarrow> Vector3" where
  "halfDims b =
     (case shape b of
        Box l w h \<Rightarrow> Vector3 (l * scale b / 2 + padding b) (w * scale b / 2 + padding b)
                       (h * scale b / 2 + padding b)
      | _ \<Rightarrow> Vector3 0 0 0)"

fun inBox :: "Vector3 \<Rightarrow> Vector3 \<Rightarrow> Vector3 \<Rightarrow> bool" where
  "inBox (Vector3 cx cy cz) (Vector3 hx hy hz) (Vector3 x y z) =
     (\<bar>x - cx\<bar> \<le> hx \<and> \<bar>y - cy\<bar> \<le> hy \<and> \<bar>z - cz\<bar> \<le> hz)"

definition demoContainsPoint :: "Body \<Rightarrow> Vector3 \<Rightarrow> bool" where
  "demoContainsPoint b p =
     (case shape b of
        Sphere r \<Rightarrow> squaredNorm (vsub (origin (pose b)) p) < sphereRadius b * sphereRadius b
      | Box l w h \<Rightarrow> inBox (origin (pose b)) (halfDims b) p
      | _ \<Rightarrow> False)"

definition demoVolume :: "Body \<Rightarrow> real" where
  "demoVolume b =
     (case shape b of
        Sphere r \<Rightarrow> 4 * pi * sphereRadius b * sphereRadius b * sphereRadius b / 3
      | Box l w h \<Rightarrow> 8 * vx (halfDims b) * vy (halfDims b) * vz (halfDims b)
      | _ \<Rightarrow> 0)"

definition demoBoundingSphere :: "Body \<Rightarrow> BoundingSphere" where
  "demoBoundingSphere b =
     \<lparr>center = origin (pose b),
      radius = (case shape b of
                  Sphere r \<Rightarrow> sphereRadius b
                | Box l w h \<Rightarrow> sqrt (squaredNorm (halfDims b))
                | _ \<Rightarrow> 0)\<rparr>"

text \<open>The parameters \<open>t > 0\<close> at which the ray \<open>o + t d\<close> meets the surface.\<close>

definition sphereHits :: "Vector3 \<Rightarrow> real \<Rightarrow> Vector3 \<Rightarrow> Vector3 \<Rightarrow> real list" where
  "sphereHits c r p d =
     (let a = vdot d d;
          cp = vsub p c;
          h = vdot cp d;
          disc = h * h - a * (vdot cp cp - r * r)
      in if a = 0 \<or> disc < 0 then []
         else filter (\<lambda>t. t > 0) [(- h - sqrt disc) / a, (- h + sqrt disc) / a])"

fun faceParams :: "real \<Rightarrow> real \<Rightarrow> real \<Rightarrow> real \<Rightarrow> real list" where
  "faceParams p d c h = (if d = 0 then [] else [(c - h - p) / d, (c + h - p) / d])"

definition boxHits :: "Vector3 \<Rightarrow> Vector3 \<Rightarrow> Vector3 \<Rightarrow> Vector3 \<Rightarrow> real list" where
  "boxHits c h p d =
     filter (\<lambda>t. t > 0 \<and> inBox c h (vray p d t))
       (faceParams (vx p) (vx d) (vx c) (vx h) @ faceParams (vy p) (vy d) (vy c) (vy h)
          @ faceParams (vz p) (vz d) (vz c) (vz h))"

definition demoIntersectsRay :: "Body \<Rightarrow> Vector3 \<Rightarrow> Vector3 \<Rightarrow> Vector3 list \<Rightarrow> nat
    \<Rightarrow> bool \<times> Vector3 list" where
  "demoIntersectsRay b p d ints n =
     (let ts = (case shape b of
                  Sphere r \<Rightarrow> sphereHits (origin (pose b)) (sphereRadius b) p d
                | Box l w h \<Rightarrow> boxHits (origin (pose b)) (halfDims b) p d
                | _ \<Rightarrow> [])
      in case ts of
           [] \<Rightarrow> (False, ints)
         | t # ts' \<Rightarrow> (True, ints @ [vray p d (fold min ts' t)]))"

text \<open>The smallest sphere around two spheres, and around a list of them.\<close>

definition merge2 :: "BoundingSphere \<Rightarrow> BoundingSphere \<Rightarrow> BoundingSphere" where
  "merge2 a b =
     (let d = vlength (vsub (center b) (center a))
      in if d + radius b \<le> radius a then a
         else if d + radius a \<le> radius b then b
         else (let r = (d + radius a + radius b) / 2
               in \<lparr>center = vray (center a) (vsub (center b) (center a)) ((r - radius a) / d),
                   radius = r\<rparr>))"

definition demoMerge :: "BoundingSphere list \<Rightarrow> BoundingSphere" where
  "demoMerge ss =
     (case ss of
        [] \<Rightarrow> \<lparr>center = Vector3 0 0 0, radius = 0\<rparr>
      | s # rest \<Rightarrow> fold (\<lambda>x acc. merge2 acc x) rest s)"

definition demoCreateBody :: "Shape \<Rightarrow> Body option" where
  "demoCreateBody s =
     (case s of
        Sphere r \<Rightarrow> Some \<lparr>shape = s, scale = 1, padding = 0, pose = identityTransform\<rparr>
      | Box l w h \<Rightarrow> Some \<lparr>shape = s, scale = 1, padding = 0, pose = identityTransform\<rparr>
      | _ \<Rightarrow> None)"

text \<open>Composition of rigid transforms: the quaternion product, and the second origin
  rotated by the first rotation and moved by the first origin.\<close>

fun qmul :: "Quaternion \<Rightarrow> Quaternion \<Rightarrow> Quaternion" where
  "qmul (Quaternion x1 y1 z1 w1) (Quaternion x2 y2 z2 w2) =
     Quaternion (w1 * x2 + x1 * w2 + y1 * z2 - z1 * y2)
                (w1 * y2 - x1 * z2 + y1 * w2 + z1 * x2)
                (w1 * z2 + x1 * y2 - y1 * x2 + z1 * w2)
                (w1 * w2 - x1 * x2 - y1 * y2 - z1 * z2)"

fun vcross :: "Vector3 \<Rightarrow> Vector3 \<Rightarrow> Vector3" where
  "vcross (Vector3 a b c) (Vector3 x y z) = Vector3 (b * z - c * y) (c * x - a * z) (a * y - b * x)"

fun qrotate :: "Quaternion \<Rightarrow> Vector3 \<Rightarrow> Vector3" where
  "qrotate (Quaternion x y z w) v =
     (let q = Vector3 x y z;
          t = vcross q v
      in vray (vray v t (2 * w)) (vcross q t) 2)"

definition demoTfMul :: "Transform \<Rightarrow> Transform \<Rightarrow> Transform" where
  "demoTfMul a b =
     \<lparr>rotation = qmul (rotation a) (rotation b),
      origin = vray (origin a) (qrotate (rotation a) (origin b)) 1\<rparr>"

text \<open>Two sorting procedures that meet the promise of \<^verbatim>\<open>std::sort\<close>: insertion
  behind the elements that are not ordered after the new one, and insertion in front
  of them.\<close>

fun insertBehind :: "('a \<Rightarrow> 'a \<Rightarrow> bool) \<Rightarrow> 'a \<Rightarrow> 'a list \<Rightarrow> 'a list" where
  "insertBehind lt x [] = [x]"
| "insertBehind lt x (y # ys) =
     (if lt x y then x # y # ys else y # insertBehind lt x ys)"

definition sortBehind :: "('a \<Rightarrow> 'a \<Rightarrow> bool) \<Rightarrow> 'a list \<Rightarrow> 'a list" where
  "sortBehind lt xs = fold (insertBehind lt) xs []"

fun insertInFront :: "('a \<Rightarrow> 'a \<Rightarrow> bool) \<Rightarrow> 'a \<Rightarrow> 'a list \<Rightarrow> 'a list" where
  "insertInFront lt x [] = [x]"
| "insertInFront lt x (y # ys) =
     (if lt y x then y # insertInFront lt x ys else x # y # ys)"

definition sortInFront :: "('a \<Rightarrow> 'a \<Rightarrow> bool) \<Rightarrow> 'a list \<Rightarrow> 'a list" where
  "sortInFront lt xs = fold (insertInFront lt) xs []"

text \<open>A robot model with a box, two spheres, a cylinder, a link without collision
  geometry and a link with a geometry of unknown type.\<close>

definition zeroPose :: Pose where
  "zeroPose = \<lparr>position = Vector3 0 0 0, rot = Quaternion 0 0 0 1\<rparr>"

definition demoModel :: UrdfModel where
  "demoModel n =
     (if n = ''base'' then Some \<lparr>collision = Some \<lparr>geometry = Some (GBox (Vector3 2 4 4)),
                                                   col_origin = zeroPose\<rparr>\<rparr>
      else if n = ''head'' then Some \<lparr>collision = Some \<lparr>geometry = Some (GSphere 1),
                                                       col_origin = zeroPose\<rparr>\<rparr>
      else if n = ''hand'' then Some \<lparr>collision = Some \<lparr>geometry = Some (GSphere 1),
                                                       col_origin = zeroPose\<rparr>\<rparr>
      else if n = ''wheel'' then Some \<lparr>collision = Some \<lparr>geometry = Some (GCylinder 1 1),
                                                        col_origin = zeroPose\<rparr>\<rparr>
      else if n = ''frame'' then Some \<lparr>collision = None\<rparr>
      else if n = ''odd'' then Some \<lparr>collision = Some \<lparr>geometry = Some (GOther 7),
                                                      col_origin = zeroPose\<rparr>\<rparr>
      else None)"

text \<open>The transform listener knows where the head is, and nothing else.\<close>

definition demoLookup :: "string \<Rightarrow> string \<Rightarrow> Time \<Rightarrow> Transform option" where
  "demoLookup target source tm =
     (if source = ''head'' then Some \<lparr>rotation = Quaternion 0 0 0 1, origin = Vector3 0 0 3\<rparr>
      else None)"

definition demoEnv :: Env where
  "demoEnv =
     \<lparr>robot_description = Some ''robot'',
      initString = (\<lambda>content. Some demoModel),
      createMeshFromResource = (\<lambda>filename sc. Some (Mesh filename sc)),
      createBodyFromShape = demoCreateBody,
      computeVolume = demoVolume,
      containsPoint = demoContainsPoint,
      intersectsRay = demoIntersectsRay,
      computeBoundingSphere = demoBoundingSphere,
      mergeBoundingSpheres = demoMerge,
      waitForTransform = (\<lambda>target source tm. demoLookup target source tm \<noteq> None),
      lookupTransform = demoLookup,
      tf_mul = demoTfMul,
      std_sort = sortBehind,
      defaultSphere = \<lparr>center = Vector3 0 0 0, radius = 0\<rparr>\<rparr>"

text \<open>A link with a body of the given shape and scale at the given place, its unscaled
  twin, and a state that holds such links with their bounding spheres.\<close>

definition demoLink :: "string \<Rightarrow> Shape \<Rightarrow> real \<Rightarrow> Vector3 \<Rightarrow> SeeLink" where
  "demoLink n s sc c =
     (let b = \<lparr>shape = s, scale = 1, padding = 0,
               pose = \<lparr>rotation = Quaternion 0 0 0 1, origin = c\<rparr>\<rparr>
      in \<lparr>name = n, body = b\<lparr>scale := sc\<rparr>, unscaledBody = b,
          constTransf = identityTransform, volume = demoVolume (b\<lparr>scale := sc\<rparr>)\<rparr>)"

definition demoState :: "SeeLink list \<Rightarrow> Vector3 \<Rightarrow> real \<Rightarrow> SelfMask" where
  "demoState ls sensor min_dist =
     \<lparr>bodies = ls,
      bspheres = map (\<lambda>sl. demoBoundingSphere (body sl)) ls,
      bspheresRadius2 = map (\<lambda>sl. radius (demoBoundingSphere (body sl))
                                   * radius (demoBoundingSphere (body sl))) ls,
      sensor_pos = sensor, min_sensor_dist = min_dist\<rparr>"

definition emptyState :: SelfMask where
  "emptyState = \<lparr>bodies = [], bspheres = [], bspheresRadius2 = [],
                 sensor_pos = Vector3 0 0 0, min_sensor_dist = 0\<rparr>"

text \<open>The scenarios of the specification: one sphere of radius 1 at the origin, scale 1
  and no padding; the sensor at (10, 0, 0) with a standoff of 0.1.\<close>

definition unitSphereLink :: SeeLink where
  "unitSphereLink = demoLink ''head'' (Sphere 1) 1 (Vector3 0 0 0)"

definition scenarioState :: SelfMask where
  "scenarioState = demoState [unitSphereLink] (Vector3 10 0 0) (1 / 10)"

text \<open>A sphere of radius 4 configured with scale 1/4, seen from (-6, 0, 0): the
  scaled body and its bounding sphere have radius 1.\<close>

definition shrunkLink :: SeeLink where
  "shrunkLink = demoLink ''head'' (Sphere 4) (1 / 4) (Vector3 0 0 0)"

definition shrunkState :: SelfMask where
  "shrunkState = demoState [shrunkLink] (Vector3 (- 6) 0 0) (1 / 10)"

text \<open>A box with sides 2, 4 and 4 at the origin, scale 1 and no padding: its corners
  lie on its bounding sphere, of radius 3.\<close>

definition boxLink :: SeeLink where
  "boxLink = demoLink ''base'' (Box 2 4 4) 1 (Vector3 0 0 0)"

definition boxState :: SelfMask where
  "boxState = demoState [boxLink] (Vector3 10 0 0) (1 / 10)"

text \<open>Two spheres on the line from the origin through the sensor at (4, 0, 0): one of
  radius 2 behind the sensor, at (8, 0, 0), and one of radius 1 in front of it, at
  (2, 0, 0).\<close>

definition farLink :: SeeLink where
  "farLink = demoLink ''base'' (Sphere 2) 1 (Vector3 8 0 0)"

definition nearLink :: SeeLink where
  "nearLink = demoLink ''hand'' (Sphere 1) 1 (Vector3 2 0 0)"

definition occludedState :: SelfMask where
  "occludedState = demoState [farLink, nearLink] (Vector3 4 0 0) (1 / 10)"

text \<open>The same collaborators with the other sorting procedure, and with a transform
  listener whose wait always times out.\<close>

definition unstableEnv :: Env where
  "unstableEnv = demoEnv\<lparr>std_sort := sortInFront\<rparr>"

definition timeoutEnv :: Env where
  "timeoutEnv = demoEnv\<lparr>waitForTransform := (\<lambda>target source tm. False)\<rparr>"

text \<open>Arguments of \<^verbatim>\<open>configure\<close>: two links of equal volume; and a list with two
  names the model does not know, a link without collision geometry, a cylinder, a
  geometry of unknown type, and two spheres, the second one scaled by 2.\<close>

definition twinLinks :: "LinkInfo list" where
  "twinLinks = [\<lparr>link_name = ''head'', link_padding = 0, link_scale = 1\<rparr>,
                \<lparr>link_name = ''hand'', link_padding = 0, link_scale = 1\<rparr>]"

definition mixedLinks :: "LinkInfo list" where
  "mixedLinks = [\<lparr>link_name = ''head'', link_padding = 0, link_scale = 1\<rparr>,
                 \<lparr>link_name = ''ghost'', link_padding = 0, link_scale = 1\<rparr>,
                 \<lparr>link_name = ''frame'', link_padding = 0, link_scale = 1\<rparr>,
                 \<lparr>link_name = ''wheel'', link_padding = 0, link_scale = 1\<rparr>,
                 \<lparr>link_name = ''odd'', link_padding = 0, link_scale = 1\<rparr>,
                 \<lparr>link_name = ''hand'', link_padding = 0, link_scale = 2\<rparr>,
                 \<lparr>link_name = ''phantom'', link_padding = 0, link_scale = 1\<rparr>]"

text \<open>A state with the head and the hand.\<close>

definition twoLinkState :: SelfMask where
  "twoLinkState = demoState [unitSphereLink, nearLink] (Vector3 10 0 0) (1 / 10)"

section \<open>Properties\<close>

lemmas demo_simps = demoEnv_def demoState_def demoLink_def demoContainsPoint_def demoVolume_def
  demoBoundingSphere_def demoIntersectsRay_def demoMerge_def merge2_def sphereHits_def boxHits_def
  sphereRadius_def halfDims_def squaredNorm_def vlength_def identityTransform_def
  unitSphereLink_def scenarioState_def shrunkLink_def shrunkState_def boxLink_def boxState_def
  farLink_def nearLink_def occludedState_def twoLinkState_def mergedSphere_def insideBound_def real_sqrt_divide Let_def

subsection \<open>The containment loop and the point loop\<close>

lemma containsLoop_stop: "out \<noteq> OUTSIDE \<Longrightarrow> containsLoop env sel pt bs out = out"
  by (cases bs) simp_all

lemma containsLoop_OUTSIDE:
  "containsLoop env sel pt bs OUTSIDE =
     (if \<exists>sl\<in>set bs. containsPoint env (sel sl) pt then INSIDE else OUTSIDE)"
  by (induction bs) (simp_all add: containsLoop_stop)



subsection \<open>The standoff rule\<close>



subsection \<open>Unscaled containment\<close>




subsection \<open>A ray test after one that did not qualify\<close>

text \<open>
  Claim C2 at a failing input. The point is the origin, outside both bodies and 4 away
  from the sensor. The larger body, tested first, is hit at (6, 0, 0), beyond the
  sensor, which does not qualify. The ray test of the second body, taken alone, yields
  the hit (1, 0, 0) between the point and the sensor. But the vector of
  intersections still begins with (6, 0, 0), which is tested once more: the label is
  OUTSIDE and the callback is not called, in the single-point query and in the batch
  procedure alike.
\<close>

theorem C2_shadow_missed:
  "bodies occludedState = [farLink, nearLink]
   \<and> volume farLink > volume nearLink
   \<and> \<not> containsPoint demoEnv (unscaledBody farLink) (Vector3 0 0 0)
   \<and> \<not> containsPoint demoEnv (unscaledBody nearLink) (Vector3 0 0 0)
   \<and> vlength (vsub (sensor_pos occludedState) (Vector3 0 0 0)) \<ge> min_sensor_dist occludedState
   \<and> intersectsRay demoEnv (body farLink) (Vector3 0 0 0) (Vector3 4 0 0) [] 1
       = (True, [Vector3 6 0 0])
   \<and> vdot (Vector3 1 0 0) (vsub (sensor_pos occludedState) (Vector3 6 0 0)) < 0
   \<and> intersectsRay demoEnv (body nearLink) (Vector3 0 0 0) (Vector3 4 0 0) [] 1
       = (True, [Vector3 1 0 0])
   \<and> vdot (Vector3 1 0 0) (vsub (sensor_pos occludedState) (Vector3 1 0 0)) \<ge> 0
   \<and> intersectsRay demoEnv (body nearLink) (Vector3 0 0 0) (Vector3 4 0 0) [Vector3 6 0 0] 1
       = (True, [Vector3 6 0 0, Vector3 1 0 0])
   \<and> getMaskIntersection demoEnv occludedState (Vector3 0 0 0) True = Some (OUTSIDE, [])
   \<and> maskAuxIntersection demoEnv occludedState [Vector3 0 0 0] True = Some ([OUTSIDE], [])"
  by (simp add: getMaskIntersection_def maskAuxIntersection_def intersectionPoint_def demo_simps)

subsection \<open>Batch containment\<close>

lemma squaredNorm_vsub_commute: "squaredNorm (vsub a b) = squaredNorm (vsub b a)"
  by (cases a; cases b) (simp add: squaredNorm_def algebra_simps)

lemma containmentPoint_label:
  "containmentPoint env st bound pt =
     (if insideBound bound pt \<and> (\<exists>sl\<in>set (bodies st). containsPoint env (body sl) pt)
      then INSIDE else OUTSIDE)"
  by (simp add: containmentPoint_def insideBound_def containsLoop_OUTSIDE Let_def
      squaredNorm_vsub_commute[of pt])

text \<open>
  Claim C3, amended. The batch containment procedure returns one label per point. A
  point that is not strictly inside the merged bounding sphere (its squared distance
  to the centre is at least the squared radius) is labelled OUTSIDE, whatever the
  containment test of the bodies would say; any other point is labelled INSIDE exactly
  when some scaled body, in the stored order, contains it, and OUTSIDE otherwise.
\<close>

theorem C3_batch_containment:
  "length (maskAuxContainment env st pts) = length pts
   \<and> (\<forall>i<length pts. maskAuxContainment env st pts ! i =
         (if insideBound (mergedSphere env st) (pts ! i)
             \<and> (\<exists>sl\<in>set (bodies st). containsPoint env (body sl) (pts ! i))
          then INSIDE else OUTSIDE))
   \<and> (\<forall>i<length pts. \<not> insideBound (mergedSphere env st) (pts ! i)
         \<longrightarrow> (\<forall>f. maskAuxContainment (env\<lparr>containsPoint := f\<rparr>) st pts ! i = OUTSIDE))"
  by (simp add: maskAuxContainment_def mergedSphere_def containmentPoint_label)

text \<open>Scenario A: the centre of the unit sphere and the point (5, 0, 0).\<close>

theorem C3_batch_containment_witness:
  "insideBound (mergedSphere demoEnv scenarioState) (Vector3 0 0 0)
   \<and> \<not> insideBound (mergedSphere demoEnv scenarioState) (Vector3 5 0 0)
   \<and> maskAuxContainment demoEnv scenarioState [Vector3 0 0 0, Vector3 5 0 0] = [INSIDE, OUTSIDE]"
proof -
  let ?pts = "[Vector3 0 0 0, Vector3 5 0 0]"
  have a: "insideBound (mergedSphere demoEnv scenarioState) (Vector3 0 0 0)"
    by (simp add: demo_simps)
  have b: "\<not> insideBound (mergedSphere demoEnv scenarioState) (Vector3 5 0 0)"
    by (simp add: demo_simps)
  have c: "\<exists>sl\<in>set (bodies scenarioState). containsPoint demoEnv (body sl) (Vector3 0 0 0)"
    by (simp add: demo_simps)
  from C3_batch_containment[of demoEnv scenarioState ?pts]
  have len: "length (maskAuxContainment demoEnv scenarioState ?pts) = 2"
    and nth: "\<And>i. i < 2 \<Longrightarrow> maskAuxContainment demoEnv scenarioState ?pts ! i =
         (if insideBound (mergedSphere demoEnv scenarioState) (?pts ! i)
             \<and> (\<exists>sl\<in>set (bodies scenarioState). containsPoint demoEnv (body sl) (?pts ! i))
          then INSIDE else OUTSIDE)"
    by simp_all
  from nth[of 0] a c have n0: "maskAuxContainment demoEnv scenarioState ?pts ! 0 = INSIDE"
    by simp
  from nth[of 1] b have n1: "maskAuxContainment demoEnv scenarioState ?pts ! 1 = OUTSIDE"
    by simp
  have "maskAuxContainment demoEnv scenarioState ?pts = [INSIDE, OUTSIDE]"
    using len n0 n1 by (intro nth_equalityI) (auto simp: numeral_2_eq_2 less_Suc_eq)
  with a b show ?thesis by blast
qed

text \<open>
  Claim C3 as stated fails on the merged sphere itself. The corner (1, 2, 2) of the box
  is contained in the scaled body and its squared distance to the centre of the merged
  sphere, 9, does not exceed the squared radius, 9; the body loop is skipped all the
  same and the label is OUTSIDE.
\<close>

theorem C3_boundary_counterexample:
  "bodies boxState = [boxLink]
   \<and> containsPoint demoEnv (body boxLink) (Vector3 1 2 2)
   \<and> \<not> squaredNorm (vsub (Vector3 1 2 2) (center (mergedSphere demoEnv boxState)))
        > radius (mergedSphere demoEnv boxState) * radius (mergedSphere demoEnv boxState)
   \<and> maskAuxContainment demoEnv boxState [Vector3 1 2 2] = [OUTSIDE]"
  by (simp add: maskAuxContainment_def containmentPoint_def demo_simps)

subsection \<open>Single-point queries and the batch procedures\<close>





subsection \<open>An empty sensor frame\<close>






subsection \<open>The link loop of configure\<close>

lemma configureLinks_acc:
  "configureLinks env urdfModel links bs missing msgs =
     (bs @ concat (map (\<lambda>li. fst (configureLink env urdfModel li)) links),
      missing @ concat (map (\<lambda>li. fst (snd (configureLink env urdfModel li))) links),
      msgs @ concat (map (\<lambda>li. snd (snd (configureLink env urdfModel li))) links))"
  by (induction links arbitrary: bs missing msgs) (simp_all split: prod.splits)

lemma constructShape_msgs: "filter isLinksNotInModel (snd (constructShape env geom)) = []"
  by (cases geom) simp_all

lemma configureLink_built:
  "map name (fst (configureLink env urdfModel li)) =
     (if linkBuilds env urdfModel li then [link_name li] else [])"
  by (auto simp: configureLink_def linkBuilds_def Let_def split: option.splits prod.splits)

lemma configureLink_missing:
  "fst (snd (configureLink env urdfModel li)) =
     (if urdfModel (link_name li) = None then '' '' @ link_name li else [])"
  by (simp add: configureLink_def Let_def split: option.splits prod.splits)

lemma configureLink_msgs:
  "filter isLinksNotInModel (snd (snd (configureLink env urdfModel li))) = []"
proof -
  have "filter isLinksNotInModel l = []"
    if "constructShape env geom = (r, l)" for geom r l
    using constructShape_msgs[of env geom] that by simp
  then show ?thesis
    by (auto simp: configureLink_def Let_def split: option.splits prod.splits)
qed

lemma builtBodies_names:
  "map name (builtBodies env urdfModel links) =
     map link_name (filter (linkBuilds env urdfModel) links)"
  by (induction links) (simp_all add: builtBodies_def configureLinks_acc configureLink_built)

lemma missing_text:
  "concat (map (\<lambda>li. fst (snd (configureLink env urdfModel li))) links) =
     concat (map (\<lambda>n. '' '' @ n) (unknownNames urdfModel links))"
  by (induction links) (simp_all add: unknownNames_def configureLink_missing)

lemma links_msgs:
  "filter isLinksNotInModel
     (concat (map (\<lambda>li. snd (snd (configureLink env urdfModel li))) links)) = []"
  by (induction links) (simp_all add: configureLink_msgs)

lemma configure_no_model:
  assumes "usableModel env = None"
  shows "\<not> fst (configure env st links)" and "bodies (fst (snd (configure env st links))) = []"
  using assms by (simp_all add: configure_def usableModel_def split: option.splits)

lemma configure_model:
  assumes "usableModel env = Some urdfModel"
  shows "fst (configure env st links)"
    and "bodies (fst (snd (configure env st links)))
           = std_sort env SortBodies (builtBodies env urdfModel links)"
    and "filter isLinksNotInModel (snd (snd (configure env st links))) =
           (if unknownNames urdfModel links = [] then []
            else [WarnLinksNotInModel (concat (map (\<lambda>n. '' '' @ n) (unknownNames urdfModel links)))])"
proof -
  obtain content where c: "robot_description env = Some content"
    "initString env content = Some urdfModel"
    using assms by (auto simp: usableModel_def split: option.splits)
  have empty: "(concat (map (\<lambda>n. '' '' @ n) ns) = []) = (ns = [])" for ns :: "string list"
    by (cases ns) simp_all
  show "fst (configure env st links)"
    using c by (simp add: configure_def configureLinks_acc Let_def)
  show "bodies (fst (snd (configure env st links)))
           = std_sort env SortBodies (builtBodies env urdfModel links)"
    using c by (simp add: configure_def configureLinks_acc builtBodies_def Let_def)
  show "filter isLinksNotInModel (snd (snd (configure env st links))) =
           (if unknownNames urdfModel links = [] then []
            else [WarnLinksNotInModel (concat (map (\<lambda>n. '' '' @ n) (unknownNames urdfModel links)))])"
    using c by (simp add: configure_def configureLinks_acc Let_def links_msgs missing_text empty)
qed

text \<open>A successful configure sizes the two sphere vectors to the number of bodies.\<close>

lemma configure_sizes:
  assumes "usableModel env = Some urdfModel"
  shows "length (bspheres (fst (snd (configure env st links))))
           = length (bodies (fst (snd (configure env st links))))"
    and "length (bspheresRadius2 (fst (snd (configure env st links))))
           = length (bodies (fst (snd (configure env st links))))"
proof -
  obtain content where c: "robot_description env = Some content"
    "initString env content = Some urdfModel"
    using assms by (auto simp: usableModel_def split: option.splits)
  show "length (bspheres (fst (snd (configure env st links))))
           = length (bodies (fst (snd (configure env st links))))"
    using c by (simp add: configure_def configureLinks_acc Let_def resize_def)
  show "length (bspheresRadius2 (fst (snd (configure env st links))))
           = length (bodies (fst (snd (configure env st links))))"
    using c by (simp add: configure_def configureLinks_acc Let_def resize_def)
qed

lemmas configure_simps = configure_def configureLinks_acc configureLink_def builtBodies_def
  usableModel_def linkBuilds_def unknownNames_def demoModel_def demoCreateBody_def zeroPose_def
  urdfPose2TFTransform_def resize_def SortBodies_def sortedBy_def sortBehind_def sortInFront_def
  twinLinks_def mixedLinks_def emptyState_def unstableEnv_def

subsection \<open>The order of the bodies\<close>




subsection \<open>Failures of configure\<close>

text \<open>
  Claim C7. configure returns false exactly when there is no usable robot model (the
  parameter is not set, or the description does not parse), and then it leaves no
  bodies. With a usable model it returns true; if \<^verbatim>\<open>std::sort\<close> keeps its promise, the
  monitored names are those of the entries for which nothing fails, every other entry
  being skipped; and the names the model does not know are reported in a single
  warning that lists them all, or in none when there are none.
\<close>

theorem C7_configure_failures:
  "(\<not> fst (configure env st links)) = (usableModel env = None)
   \<and> (usableModel env = None \<longrightarrow> bodies (fst (snd (configure env st links))) = [])
   \<and> (\<forall>urdfModel. usableModel env = Some urdfModel \<longrightarrow>
        fst (configure env st links)
        \<and> filter isLinksNotInModel (snd (snd (configure env st links))) =
            (if unknownNames urdfModel links = [] then []
             else [WarnLinksNotInModel (concat (map (\<lambda>n. '' '' @ n) (unknownNames urdfModel links)))])
        \<and> (sortedBy SortBodies (builtBodies env urdfModel links)
              (std_sort env SortBodies (builtBodies env urdfModel links)) \<longrightarrow>
            mset (map name (bodies (fst (snd (configure env st links)))))
              = mset (map link_name (filter (linkBuilds env urdfModel) links))
            \<and> length (bodies (fst (snd (configure env st links)))) \<le> length links))"
proof -
  have r: "(\<not> fst (configure env st links)) = (usableModel env = None)"
  proof (cases "usableModel env")
    case None
    then show ?thesis using configure_no_model(1)[of env st links] by simp
  next
    case (Some m)
    then show ?thesis using configure_model(1)[of env m st links] by simp
  qed
  have names: "mset (map name (bodies (fst (snd (configure env st links)))))
              = mset (map link_name (filter (linkBuilds env urdfModel) links))
            \<and> length (bodies (fst (snd (configure env st links)))) \<le> length links"
    if m: "usableModel env = Some urdfModel"
      and srt: "sortedBy SortBodies (builtBodies env urdfModel links)
              (std_sort env SortBodies (builtBodies env urdfModel links))"
    for urdfModel
  proof -
    let ?bs = "bodies (fst (snd (configure env st links)))"
    have perm: "mset ?bs = mset (builtBodies env urdfModel links)"
      using srt configure_model(2)[OF m, of st links] by (simp add: sortedBy_def)
    then have "mset (map name ?bs) = mset (map name (builtBodies env urdfModel links))"
      by (metis mset_map)
    then have n: "mset (map name ?bs) = mset (map link_name (filter (linkBuilds env urdfModel) links))"
      by (simp add: builtBodies_names)
    from perm have "length ?bs = length (builtBodies env urdfModel links)"
      by (rule mset_eq_length)
    also have "\<dots> = length (map name (builtBodies env urdfModel links))"
      by simp
    also have "\<dots> \<le> length links"
      unfolding builtBodies_names by simp
    finally show ?thesis using n by simp
  qed
  from r configure_no_model(2)[of env st links] configure_model(1,3)[of env _ st links] names
  show ?thesis by blast
qed

text \<open>Of seven entries, two are unknown to the model and three fail later; the head and
  the hand remain.\<close>

theorem C7_configure_failures_witness:
  "usableModel demoEnv = Some demoModel
   \<and> sortedBy SortBodies (builtBodies demoEnv demoModel mixedLinks)
        (std_sort demoEnv SortBodies (builtBodies demoEnv demoModel mixedLinks))
   \<and> unknownNames demoModel mixedLinks = [''ghost'', ''phantom'']
   \<and> map link_name (filter (linkBuilds demoEnv demoModel) mixedLinks) = [''head'', ''hand'']
   \<and> fst (configure demoEnv emptyState mixedLinks)
   \<and> filter isLinksNotInModel (snd (snd (configure demoEnv emptyState mixedLinks)))
        = [WarnLinksNotInModel '' ghost phantom'']
   \<and> mset (map name (bodies (fst (snd (configure demoEnv emptyState mixedLinks)))))
        = mset [''head'', ''hand'']
   \<and> usableModel (demoEnv\<lparr>robot_description := None\<rparr>) = None
   \<and> \<not> fst (configure (demoEnv\<lparr>robot_description := None\<rparr>) emptyState mixedLinks)"
proof -
  have a: "usableModel demoEnv = Some demoModel"
    by (simp add: usableModel_def demoEnv_def)
  have b: "sortedBy SortBodies (builtBodies demoEnv demoModel mixedLinks)
        (std_sort demoEnv SortBodies (builtBodies demoEnv demoModel mixedLinks))"
    by (simp add: configure_simps demo_simps)
  have c: "unknownNames demoModel mixedLinks = [''ghost'', ''phantom'']"
    by (simp add: configure_simps)
  have d: "map link_name (filter (linkBuilds demoEnv demoModel) mixedLinks) = [''head'', ''hand'']"
    by (simp add: configure_simps demoEnv_def)
  have e: "usableModel (demoEnv\<lparr>robot_description := None\<rparr>) = None"
    by (simp add: usableModel_def demoEnv_def)
  note t = C7_configure_failures[of demoEnv emptyState mixedLinks]
  note u = C7_configure_failures[of "demoEnv\<lparr>robot_description := None\<rparr>" emptyState mixedLinks]
  from t a have "fst (configure demoEnv emptyState mixedLinks)"
    by blast
  moreover from t a c have "filter isLinksNotInModel (snd (snd (configure demoEnv emptyState mixedLinks)))
        = [WarnLinksNotInModel '' ghost phantom'']"
    by simp
  moreover from t a b d have "mset (map name (bodies (fst (snd (configure demoEnv emptyState mixedLinks)))))
        = mset [''head'', ''hand'']"
    by simp
  moreover from u e have "\<not> fst (configure (demoEnv\<lparr>robot_description := None\<rparr>) emptyState mixedLinks)"
    by blast
  ultimately show ?thesis using a b c d e by blast
qed

subsection \<open>No bodies\<close>

text \<open>
  Claim C6. With a usable robot model (and \<^verbatim>\<open>std::sort\<close> leaving an empty range
  empty), configure with no links returns true and leaves no bodies and no monitored
  link names. In a state without bodies each of the three batch procedures returns a
  mask with OUTSIDE for every point of the cloud, gives no point to the callback, and
  leaves the state as it is.
\<close>

theorem C6_no_links:
  "(\<forall>urdfModel. usableModel env = Some urdfModel \<longrightarrow>
       sortedBy SortBodies [] (std_sort env SortBodies []) \<longrightarrow>
       fst (configure env st [])
       \<and> bodies (fst (snd (configure env st []))) = []
       \<and> getLinkNames (fst (snd (configure env st []))) [] = [])
   \<and> (\<forall>s. bodies s = [] \<longrightarrow>
        maskContainment env s data_in = (replicate (length (points data_in)) OUTSIDE, s, [])
        \<and> maskIntersection_frame env s data_in sensor_frame min_dist cb
            = (Some (replicate (length (points data_in)) OUTSIDE, []), s, [])
        \<and> maskIntersection_pos env s data_in sensor min_dist cb
            = (Some (replicate (length (points data_in)) OUTSIDE, []), s, []))"
proof -
  have conf: "fst (configure env st [])
       \<and> bodies (fst (snd (configure env st []))) = []
       \<and> getLinkNames (fst (snd (configure env st []))) [] = []"
    if m: "usableModel env = Some urdfModel"
      and srt: "sortedBy SortBodies [] (std_sort env SortBodies [])"
    for urdfModel
  proof -
    have "builtBodies env urdfModel [] = []"
      by (simp add: builtBodies_def)
    with configure_model(2)[OF m, of st "[]"] srt
    have "bodies (fst (snd (configure env st []))) = []"
      by (simp add: sortedBy_def)
    with configure_model(1)[OF m, of st "[]"] show ?thesis
      by (simp add: getLinkNames_def)
  qed
  have masks: "maskContainment env s data_in = (replicate (length (points data_in)) OUTSIDE, s, [])
        \<and> maskIntersection_frame env s data_in sensor_frame min_dist cb
            = (Some (replicate (length (points data_in)) OUTSIDE, []), s, [])
        \<and> maskIntersection_pos env s data_in sensor min_dist cb
            = (Some (replicate (length (points data_in)) OUTSIDE, []), s, [])"
    if "bodies s = []" for s
    using that by (simp add: maskContainment_def maskIntersection_frame_def maskIntersection_pos_def)
  from conf masks show ?thesis by blast
qed

text \<open>configure with no links, then three clouds of two points.\<close>

theorem C6_no_links_witness:
  "usableModel demoEnv = Some demoModel
   \<and> sortedBy SortBodies [] (std_sort demoEnv SortBodies [])
   \<and> fst (configure demoEnv scenarioState [])
   \<and> getLinkNames (fst (snd (configure demoEnv scenarioState []))) [] = []
   \<and> fst (maskContainment demoEnv (fst (snd (configure demoEnv scenarioState [])))
        \<lparr>frame_id = ''map'', stamp = 0, points = [Vector3 0 0 0, Vector3 5 0 0]\<rparr>)
       = [OUTSIDE, OUTSIDE]
   \<and> fst (maskIntersection_frame demoEnv (fst (snd (configure demoEnv scenarioState [])))
        \<lparr>frame_id = ''map'', stamp = 0, points = [Vector3 0 0 0, Vector3 5 0 0]\<rparr>
        ''head'' (1 / 10) True)
       = Some ([OUTSIDE, OUTSIDE], [])
   \<and> fst (maskIntersection_pos demoEnv (fst (snd (configure demoEnv scenarioState [])))
        \<lparr>frame_id = ''map'', stamp = 0, points = [Vector3 0 0 0, Vector3 5 0 0]\<rparr>
        (Vector3 10 0 0) (1 / 10) True)
       = Some ([OUTSIDE, OUTSIDE], [])"
proof -
  let ?cloud = "\<lparr>frame_id = ''map'', stamp = 0, points = [Vector3 0 0 0, Vector3 5 0 0]\<rparr>"
  let ?s = "fst (snd (configure demoEnv scenarioState []))"
  have a: "usableModel demoEnv = Some demoModel"
    by (simp add: usableModel_def demoEnv_def)
  have b: "sortedBy SortBodies [] (std_sort demoEnv SortBodies [])"
    by (simp add: sortedBy_def sortBehind_def demoEnv_def)
  note t = C6_no_links[of demoEnv scenarioState ?cloud "''head''" "1 / 10" True "Vector3 10 0 0"]
  from t a b have c: "fst (configure demoEnv scenarioState [])"
    and d: "bodies ?s = []" and e: "getLinkNames ?s [] = []"
    by blast+
  from t d have
    "maskContainment demoEnv ?s ?cloud = (replicate (length (points ?cloud)) OUTSIDE, ?s, [])"
    "maskIntersection_frame demoEnv ?s ?cloud ''head'' (1 / 10) True
       = (Some (replicate (length (points ?cloud)) OUTSIDE, []), ?s, [])"
    "maskIntersection_pos demoEnv ?s ?cloud (Vector3 10 0 0) (1 / 10) True
       = (Some (replicate (length (points ?cloud)) OUTSIDE, []), ?s, [])"
    by blast+
  then have
    "fst (maskContainment demoEnv ?s ?cloud) = [OUTSIDE, OUTSIDE]"
    "fst (maskIntersection_frame demoEnv ?s ?cloud ''head'' (1 / 10) True) = Some ([OUTSIDE, OUTSIDE], [])"
    "fst (maskIntersection_pos demoEnv ?s ?cloud (Vector3 10 0 0) (1 / 10) True) = Some ([OUTSIDE, OUTSIDE], [])"
    by (simp_all add: numeral_2_eq_2)
  with a b c e show ?thesis by blast
qed

subsection \<open>Poses and bounding spheres\<close>

lemma placeLinks_map:
  "fst (placeLinks env frame tm bs) = map (\<lambda>sl. fst (placeLink env frame tm sl)) bs"
  by (induction bs) (auto split: prod.splits)

lemma placeLink_result:
  "fst (placeLink env frame tm sl) =
     (let p = tf_mul env (case lookupTransform env frame (name sl) tm of
                            Some t \<Rightarrow> t | None \<Rightarrow> identityTransform) (constTransf sl)
      in sl\<lparr>body := (body sl)\<lparr>pose := p\<rparr>, unscaledBody := (unscaledBody sl)\<lparr>pose := p\<rparr>\<rparr>)"
  by (simp add: placeLink_def Let_def split: option.splits)

lemma boundingSphere_fold_bodies:
  "bodies (fold (boundingSphereStep env) js st) = bodies st"
  by (induction js arbitrary: st) (simp_all add: boundingSphereStep_def Let_def)

lemma boundingSphere_fold_bspheres:
  "n \<le> length (bspheres st) \<Longrightarrow>
   bspheres (fold (boundingSphereStep env) [0..<n] st) =
     map (\<lambda>i. computeBoundingSphere env (body (bodies st ! i))) [0..<n] @ drop n (bspheres st)"
proof (induction n)
  case 0
  then show ?case by simp
next
  case (Suc n)
  let ?st1 = "fold (boundingSphereStep env) [0..<n] st"
  from Suc have ih: "bspheres ?st1 =
     map (\<lambda>i. computeBoundingSphere env (body (bodies st ! i))) [0..<n] @ drop n (bspheres st)"
    by simp
  from Suc.prems have d: "drop n (bspheres st) = bspheres st ! n # drop (Suc n) (bspheres st)"
    by (simp add: Cons_nth_drop_Suc)
  have "bspheres (fold (boundingSphereStep env) [0..<Suc n] st)
          = (bspheres ?st1)[n := computeBoundingSphere env (body (bodies ?st1 ! n))]"
    by (simp add: boundingSphereStep_def Let_def)
  also have "\<dots> = map (\<lambda>i. computeBoundingSphere env (body (bodies st ! i))) [0..<n]
                    @ computeBoundingSphere env (body (bodies st ! n)) # drop (Suc n) (bspheres st)"
    by (simp add: ih d list_update_append boundingSphere_fold_bodies)
  finally show ?case by simp
qed

lemma boundingSphere_fold_radius2:
  "n \<le> length (bspheresRadius2 st) \<Longrightarrow>
   bspheresRadius2 (fold (boundingSphereStep env) [0..<n] st) =
     map (\<lambda>i. radius (computeBoundingSphere env (body (bodies st ! i)))
               * radius (computeBoundingSphere env (body (bodies st ! i)))) [0..<n]
       @ drop n (bspheresRadius2 st)"
proof (induction n)
  case 0
  then show ?case by simp
next
  case (Suc n)
  let ?st1 = "fold (boundingSphereStep env) [0..<n] st"
  let ?r = "\<lambda>i. radius (computeBoundingSphere env (body (bodies st ! i)))
               * radius (computeBoundingSphere env (body (bodies st ! i)))"
  from Suc have ih: "bspheresRadius2 ?st1 = map ?r [0..<n] @ drop n (bspheresRadius2 st)"
    by simp
  from Suc.prems have d: "drop n (bspheresRadius2 st)
      = bspheresRadius2 st ! n # drop (Suc n) (bspheresRadius2 st)"
    by (simp add: Cons_nth_drop_Suc)
  have "bspheresRadius2 (fold (boundingSphereStep env) [0..<Suc n] st)
          = (bspheresRadius2 ?st1)[n := ?r n]"
    by (simp add: boundingSphereStep_def Let_def boundingSphere_fold_bodies)
  also have "\<dots> = map ?r [0..<n] @ ?r n # drop (Suc n) (bspheresRadius2 st)"
    by (simp add: ih d list_update_append)
  finally show ?case by simp
qed

lemma computeBoundingSpheres_result:
  "bodies (computeBoundingSpheres env st) = bodies st"
  "length (bspheres st) = length (bodies st) \<Longrightarrow>
     bspheres (computeBoundingSpheres env st)
       = map (\<lambda>sl. computeBoundingSphere env (body sl)) (bodies st)"
  "length (bspheresRadius2 st) = length (bodies st) \<Longrightarrow>
     bspheresRadius2 (computeBoundingSpheres env st)
       = map (\<lambda>sl. radius (computeBoundingSphere env (body sl))
                    * radius (computeBoundingSphere env (body sl))) (bodies st)"
proof -
  have m: "map (\<lambda>i. g (xs ! i)) [0..<length xs] = map g xs" for g :: "SeeLink \<Rightarrow> 'b" and xs
    by (rule nth_equalityI) simp_all
  show "bodies (computeBoundingSpheres env st) = bodies st"
    by (simp add: computeBoundingSpheres_def boundingSphere_fold_bodies)
  show "bspheres (computeBoundingSpheres env st)
       = map (\<lambda>sl. computeBoundingSphere env (body sl)) (bodies st)"
    if "length (bspheres st) = length (bodies st)"
    using that boundingSphere_fold_bspheres[of "length (bodies st)" st env]
      m[of "\<lambda>sl. computeBoundingSphere env (body sl)" "bodies st"]
    by (simp add: computeBoundingSpheres_def)
  show "bspheresRadius2 (computeBoundingSpheres env st)
       = map (\<lambda>sl. radius (computeBoundingSphere env (body sl))
                    * radius (computeBoundingSphere env (body sl))) (bodies st)"
    if "length (bspheresRadius2 st) = length (bodies st)"
    using that boundingSphere_fold_radius2[of "length (bodies st)" st env]
      m[of "\<lambda>sl. radius (computeBoundingSphere env (body sl))
                    * radius (computeBoundingSphere env (body sl))" "bodies st"]
    by (simp add: computeBoundingSpheres_def)
qed

lemma assumeFrame_state:
  "fst (assumeFrame env st frame tm) =
     computeBoundingSpheres env
       (st\<lparr>bodies := map (\<lambda>sl. fst (placeLink env frame tm sl)) (bodies st)\<rparr>)"
  using placeLinks_map[of env frame tm "bodies st"]
  by (auto simp: assumeFrame_def split: prod.splits)

lemma placeLink_wait:
  "fst (placeLink (env\<lparr>waitForTransform := w\<rparr>) frame tm sl) = fst (placeLink env frame tm sl)"
  by (simp add: placeLink_result)

lemma computeBoundingSpheres_wait:
  "computeBoundingSpheres (env\<lparr>waitForTransform := w\<rparr>) st = computeBoundingSpheres env st"
proof -
  have "boundingSphereStep (env\<lparr>waitForTransform := w\<rparr>) = boundingSphereStep env"
    by (simp add: fun_eq_iff boundingSphereStep_def)
  then show ?thesis by (simp add: computeBoundingSpheres_def)
qed

text \<open>
  Claim C8, amended. assumeFrame always returns a state with as many bodies as before.
  A link whose lookup throws gets the identity transform composed with its constant
  offset as the pose of both its bodies; a link whose lookup returns a transform gets
  that transform composed with its constant offset; nothing else of a link changes.
  The outcome of the wait plays no part in the state: a wait that times out is logged,
  and the lookup is made all the same. When the sphere vectors have the size
  configure gave them, they hold afterwards the bounding sphere and its squared radius
  of every scaled body in its new pose.
\<close>

theorem C8_assumeFrame_degraded:
  "length (bodies (fst (assumeFrame env st frame tm))) = length (bodies st)
   \<and> (\<forall>i<length (bodies st).
        (lookupTransform env frame (name (bodies st ! i)) tm = None \<longrightarrow>
           bodies (fst (assumeFrame env st frame tm)) ! i
             = withPose (bodies st ! i) (tf_mul env identityTransform (constTransf (bodies st ! i))))
        \<and> (\<forall>t. lookupTransform env frame (name (bodies st ! i)) tm = Some t \<longrightarrow>
             bodies (fst (assumeFrame env st frame tm)) ! i
               = withPose (bodies st ! i) (tf_mul env t (constTransf (bodies st ! i)))))
   \<and> (\<forall>w. fst (assumeFrame (env\<lparr>waitForTransform := w\<rparr>) st frame tm)
            = fst (assumeFrame env st frame tm))
   \<and> (length (bspheres st) = length (bodies st) \<longrightarrow>
        bspheres (fst (assumeFrame env st frame tm))
          = map (\<lambda>sl. computeBoundingSphere env (body sl)) (bodies (fst (assumeFrame env st frame tm))))
   \<and> (length (bspheresRadius2 st) = length (bodies st) \<longrightarrow>
        bspheresRadius2 (fst (assumeFrame env st frame tm))
          = map (\<lambda>sl. radius (computeBoundingSphere env (body sl))
                       * radius (computeBoundingSphere env (body sl)))
              (bodies (fst (assumeFrame env st frame tm))))"
proof -
  let ?placed = "st\<lparr>bodies := map (\<lambda>sl. fst (placeLink env frame tm sl)) (bodies st)\<rparr>"
  have bs: "bodies (fst (assumeFrame env st frame tm))
              = map (\<lambda>sl. fst (placeLink env frame tm sl)) (bodies st)"
    by (simp add: assumeFrame_state computeBoundingSpheres_result(1))
  have len: "length (bodies (fst (assumeFrame env st frame tm))) = length (bodies st)"
    by (simp add: bs)
  have none: "bodies (fst (assumeFrame env st frame tm)) ! i
             = withPose (bodies st ! i) (tf_mul env identityTransform (constTransf (bodies st ! i)))"
    if "i < length (bodies st)" "lookupTransform env frame (name (bodies st ! i)) tm = None" for i
    using that by (simp add: bs placeLink_result withPose_def Let_def)
  have some: "bodies (fst (assumeFrame env st frame tm)) ! i
               = withPose (bodies st ! i) (tf_mul env t (constTransf (bodies st ! i)))"
    if "i < length (bodies st)" "lookupTransform env frame (name (bodies st ! i)) tm = Some t" for i t
    using that by (simp add: bs placeLink_result withPose_def Let_def)
  have wait: "fst (assumeFrame (env\<lparr>waitForTransform := w\<rparr>) st frame tm)
            = fst (assumeFrame env st frame tm)" for w
    by (simp add: assumeFrame_state placeLink_wait computeBoundingSpheres_wait)
  have sph: "bspheres (fst (assumeFrame env st frame tm))
          = map (\<lambda>sl. computeBoundingSphere env (body sl)) (bodies (fst (assumeFrame env st frame tm)))"
    if "length (bspheres st) = length (bodies st)"
    using that computeBoundingSpheres_result(2)[of ?placed env]
    by (simp add: bs) (simp add: assumeFrame_state)
  have rad: "bspheresRadius2 (fst (assumeFrame env st frame tm))
          = map (\<lambda>sl. radius (computeBoundingSphere env (body sl))
                       * radius (computeBoundingSphere env (body sl)))
              (bodies (fst (assumeFrame env st frame tm)))"
    if "length (bspheresRadius2 st) = length (bodies st)"
    using that computeBoundingSpheres_result(3)[of ?placed env]
    by (simp add: bs) (simp add: assumeFrame_state)
  from len none some wait sph rad show ?thesis by blast
qed

text \<open>The transform listener knows the head and not the hand: the head is placed at
  (0, 0, 3), the hand at the identity.\<close>

theorem C8_assumeFrame_degraded_witness:
  "bodies twoLinkState = [unitSphereLink, nearLink]
   \<and> lookupTransform demoEnv ''map'' (name unitSphereLink) 0
       = Some \<lparr>rotation = Quaternion 0 0 0 1, origin = Vector3 0 0 3\<rparr>
   \<and> lookupTransform demoEnv ''map'' (name nearLink) 0 = None
   \<and> length (bspheres twoLinkState) = length (bodies twoLinkState)
   \<and> map (\<lambda>sl. pose (body sl)) (bodies (fst (assumeFrame demoEnv twoLinkState ''map'' 0)))
       = [\<lparr>rotation = Quaternion 0 0 0 1, origin = Vector3 0 0 3\<rparr>, identityTransform]
   \<and> map (\<lambda>sl. pose (unscaledBody sl)) (bodies (fst (assumeFrame demoEnv twoLinkState ''map'' 0)))
       = [\<lparr>rotation = Quaternion 0 0 0 1, origin = Vector3 0 0 3\<rparr>, identityTransform]
   \<and> bspheres (fst (assumeFrame demoEnv twoLinkState ''map'' 0))
       = [\<lparr>center = Vector3 0 0 3, radius = 1\<rparr>, \<lparr>center = Vector3 0 0 0, radius = 1\<rparr>]"
proof -
  let ?st' = "fst (assumeFrame demoEnv twoLinkState ''map'' 0)"
  have a: "bodies twoLinkState = [unitSphereLink, nearLink]"
    by (simp add: demo_simps)
  have b: "lookupTransform demoEnv ''map'' (name unitSphereLink) 0
       = Some \<lparr>rotation = Quaternion 0 0 0 1, origin = Vector3 0 0 3\<rparr>"
    by (simp add: demoLookup_def demo_simps)
  have c: "lookupTransform demoEnv ''map'' (name nearLink) 0 = None"
    by (simp add: demoLookup_def demo_simps)
  have d: "length (bspheres twoLinkState) = length (bodies twoLinkState)"
    by (simp add: demo_simps)
  note t = C8_assumeFrame_degraded[of demoEnv twoLinkState "''map''" 0]
  from t a have len: "length (bodies ?st') = 2"
    by simp
  from t a b have n0: "bodies ?st' ! 0 = withPose unitSphereLink
      (tf_mul demoEnv \<lparr>rotation = Quaternion 0 0 0 1, origin = Vector3 0 0 3\<rparr> (constTransf unitSphereLink))"
    by simp
  from t a c have n1: "bodies ?st' ! 1 = withPose nearLink
      (tf_mul demoEnv identityTransform (constTransf nearLink))"
    by simp
  have l: "bodies ?st' = [bodies ?st' ! 0, bodies ?st' ! 1]"
    using len by (intro nth_equalityI) (auto simp: numeral_2_eq_2 less_Suc_eq)
  have tfs: "tf_mul demoEnv \<lparr>rotation = Quaternion 0 0 0 1, origin = Vector3 0 0 3\<rparr>
               (constTransf unitSphereLink)
             = \<lparr>rotation = Quaternion 0 0 0 1, origin = Vector3 0 0 3\<rparr>"
    "tf_mul demoEnv identityTransform (constTransf nearLink) = identityTransform"
    by (simp_all add: demoTfMul_def demo_simps)
  have bs: "bodies ?st' =
      [withPose unitSphereLink \<lparr>rotation = Quaternion 0 0 0 1, origin = Vector3 0 0 3\<rparr>,
       withPose nearLink identityTransform]"
    using l by (simp only: n0 n1 tfs)
  from t d have sph0: "bspheres ?st' = map (\<lambda>sl. computeBoundingSphere demoEnv (body sl)) (bodies ?st')"
    by blast
  have val: "map (\<lambda>sl. computeBoundingSphere demoEnv (body sl))
      [withPose unitSphereLink \<lparr>rotation = Quaternion 0 0 0 1, origin = Vector3 0 0 3\<rparr>,
       withPose nearLink identityTransform]
       = [\<lparr>center = Vector3 0 0 3, radius = 1\<rparr>, \<lparr>center = Vector3 0 0 0, radius = 1\<rparr>]"
    by (simp add: withPose_def demo_simps)
  have sph: "bspheres ?st'
       = [\<lparr>center = Vector3 0 0 3, radius = 1\<rparr>, \<lparr>center = Vector3 0 0 0, radius = 1\<rparr>]"
    by (simp only: sph0 bs val)
  have p: "map (\<lambda>sl. pose (body sl)) (bodies ?st')
       = [\<lparr>rotation = Quaternion 0 0 0 1, origin = Vector3 0 0 3\<rparr>, identityTransform]"
    "map (\<lambda>sl. pose (unscaledBody sl)) (bodies ?st')
       = [\<lparr>rotation = Quaternion 0 0 0 1, origin = Vector3 0 0 3\<rparr>, identityTransform]"
    by (simp_all add: bs withPose_def)
  from a b c d p sph show ?thesis by blast
qed

text \<open>
  Claim C8 as stated fails for a timeout that is not followed by an exception. The wait
  for the head times out and is logged, the lookup then returns the transform to (0, 0,
  3), and this transform, not the identity, becomes the pose.
\<close>

theorem C8_timeout_counterexample:
  "bodies scenarioState = [unitSphereLink]
   \<and> \<not> waitForTransform timeoutEnv ''map'' (name unitSphereLink) 0
   \<and> snd (assumeFrame timeoutEnv scenarioState ''map'' 0) = [ErrorWaitForTransform ''head'' ''map'']
   \<and> map (\<lambda>sl. pose (body sl)) (bodies (fst (assumeFrame timeoutEnv scenarioState ''map'' 0)))
       = [\<lparr>rotation = Quaternion 0 0 0 1, origin = Vector3 0 0 3\<rparr>]
   \<and> tf_mul timeoutEnv identityTransform (constTransf unitSphereLink)
       = \<lparr>rotation = Quaternion 0 0 0 1, origin = Vector3 0 0 0\<rparr>"
  by (simp add: assumeFrame_def placeLink_def computeBoundingSpheres_def boundingSphereStep_def
      timeoutEnv_def demoLookup_def demoTfMul_def demo_simps)

end
